theory Spec2Isabelle
  imports Complex_Main "HOL-Library.Sublist"
begin

section \<open>The reference evalscript of the water-segmentation data acquisition\<close>

text \<open>
  \<^verbatim>\<open>01_DataAcquisition.ipynb\<close>, \<^verbatim>\<open>task_reference\<close>: the evalscript is JavaScript, run by
  Sentinel Hub once per pixel.

  \<^verbatim>\<open>
  function evaluatePixel(samples) {
      let val = index(samples.B03,samples.B8A);
      let water = 0;
      if (val>0.1){ water = 1; } else { water = 0; }
      return {
          B02: [samples.B02], B03: [samples.B03], B04: [samples.B04],
          B08: [samples.B08], B8A: [samples.B8A], B11: [samples.B11],
          NDWI: [val],
          reference: [water],
          dmask_reference: [samples.dataMask],
          cmask_reference: [!samples.CLM]
      };
  }
  \<close>

  A JavaScript value is a number or a boolean. A number is a double: NaN, or the rational
  it stands for (the infinities are left out). \<open>index\<close> is a utility function of the
  Sentinel Hub runtime, not of the repository: it is a parameter of the model.
\<close>

datatype jsval = JNaN | JNum rat | JBool bool

text \<open>
  The literal \<open>0.1\<close> is the double nearest to one tenth, \<open>0x3FB999999999999A\<close>, which is
  \<open>3602879701896397 / 2^55\<close>.
\<close>

definition double_0_1 :: rat where
  "double_0_1 = 3602879701896397 / 2 ^ 55"

text \<open>
  \<open>a > b\<close>: both sides are converted to numbers (\<open>true\<close> is 1 and \<open>false\<close> is 0), doubles
  are compared exactly, and every comparison with NaN is false.
\<close>

fun js_number :: "jsval \<Rightarrow> rat option" where
  "js_number (JNum a) = Some a"
| "js_number (JBool b) = Some (if b then 1 else 0)"
| "js_number JNaN = None"

definition js_gt :: "jsval \<Rightarrow> jsval \<Rightarrow> bool" where
  "js_gt a b =
     (case (js_number a, js_number b) of
        (Some x, Some y) \<Rightarrow> x > y
      | _ \<Rightarrow> False)"

text \<open>\<open>!a\<close>: true exactly on the falsy values \<open>0\<close>, \<open>NaN\<close> and \<open>false\<close>.\<close>

fun js_not :: "jsval \<Rightarrow> jsval" where
  "js_not (JNum a) = JBool (a = 0)"
| "js_not JNaN = JBool True"
| "js_not (JBool b) = JBool (\<not> b)"

record samples =
  B02 :: jsval
  B03 :: jsval
  B04 :: jsval
  B08 :: jsval
  B8A :: jsval
  B11 :: jsval
  dataMask :: jsval
  CLM :: jsval

text \<open>The returned object, as the list of its properties in the order written.\<close>

definition evaluatePixel ::
  "(jsval \<Rightarrow> jsval \<Rightarrow> jsval) \<Rightarrow> samples \<Rightarrow> (string \<times> jsval list) list" where
  "evaluatePixel index s =
     (let val = index (B03 s) (B8A s);
          water = (if js_gt val (JNum double_0_1) then JNum 1 else JNum 0)
      in [(''B02'', [B02 s]),
          (''B03'', [B03 s]),
          (''B04'', [B04 s]),
          (''B08'', [B08 s]),
          (''B8A'', [B8A s]),
          (''B11'', [B11 s]),
          (''NDWI'', [val]),
          (''reference'', [water]),
          (''dmask_reference'', [dataMask s]),
          (''cmask_reference'', [js_not (CLM s)])])"

section \<open>numpy arrays\<close>

text \<open>
  An array is its shape and its elements in row-major order. An element is a number or
  NaN (the infinities behave like numbers in everything modelled here and are left out).
\<close>

datatype elt = NaN | Val rat

record ndarray =
  shape :: "nat list"
  data :: "elt list"

text \<open>numpy's truth value of an element: everything but zero, NaN included.\<close>

definition nonzero :: "elt \<Rightarrow> bool" where
  "nonzero e = (e \<noteq> Val 0)"

definition np_all :: "ndarray \<Rightarrow> bool" where
  "np_all array = list_all nonzero (data array)"

definition np_count_nonzero :: "ndarray \<Rightarrow> nat" where
  "np_count_nonzero array = length (filter nonzero (data array))"

definition np_size :: "ndarray \<Rightarrow> nat" where
  "np_size array = prod_list (shape array)"

text \<open>The Python exceptions the modelled code can meet.\<close>

datatype exn = AxisError | ValueError | KeyError | TypeError | NameError | Exception string

text \<open>
  \<open>np.moveaxis(array, -1, 0)\<close>: the last axis becomes the first one. With \<open>c\<close> the
  length of the last axis and \<open>r\<close> the number of index tuples of the other axes, the
  element at \<open>(k, i)\<close> of the result is the element at \<open>(i, k)\<close> of the argument. An
  array without axes has no last axis: numpy raises AxisError.
\<close>

definition np_moveaxis_last_to_front :: "ndarray \<Rightarrow> exn + ndarray" where
  "np_moveaxis_last_to_front array =
     (if shape array = [] then Inl AxisError
      else let c = last (shape array);
               r = prod_list (butlast (shape array))
           in Inr \<lparr>shape = c # butlast (shape array),
                   data = concat (map (\<lambda>k. map (\<lambda>i. data array ! (i * c + k)) [0..<r])
                                      [0..<c])\<rparr>)"

text \<open>\<open>array.squeeze()\<close>: every axis of length one is removed.\<close>

definition ndarray_squeeze :: "ndarray \<Rightarrow> ndarray" where
  "ndarray_squeeze array = array\<lparr>shape := filter (\<lambda>d. d \<noteq> 1) (shape array)\<rparr>"

text \<open>
  \<open>array.squeeze(axis)\<close>: the axis is removed when its length is one; numpy raises
  AxisError for an axis out of range and ValueError for an axis of another length.
  A negative axis counts from the end.
\<close>

definition ndarray_squeeze_axis :: "ndarray \<Rightarrow> int \<Rightarrow> exn + ndarray" where
  "ndarray_squeeze_axis array axis =
     (let n = int (length (shape array)) in
      if axis < - n \<or> n \<le> axis then Inl AxisError
      else let j = nat (if axis < 0 then axis + n else axis) in
           if shape array ! j \<noteq> 1 then Inl ValueError
           else Inr (array\<lparr>shape := take j (shape array) @ drop (Suc j) (shape array)\<rparr>))"

section \<open>The Torchify transform of the Treecurrent testing notebook\<close>

text \<open>
  \<^verbatim>\<open>
  def torchify(array):
      return np.moveaxis(array, -1, 0)

  def nan_to_value(array, value=0):
      nan_loc = np.isnan(array)
      array[nan_loc] = value
      return array

  class Torchify():
      def __init__(self,squeeze=False, nanvalue=0):
          self.squeeze = squeeze
          self.nanvalue = nanvalue
      def __call__(self,array):
          array_ = torchify(array)
          array_ = nan_to_value(array_, value=self.nanvalue)

          if self.squeeze==True:
              return array_.squeeze()
          elif type(self.squeeze)==int:
              return array_.squeeze(self.squeeze)
          else:
              return array_
  \<close>

  \<open>nan_to_value\<close> assigns in place, into a view of the caller's array; the model returns
  the array the call returns.
\<close>

definition torchify :: "ndarray \<Rightarrow> exn + ndarray" where
  "torchify array = np_moveaxis_last_to_front array"

definition nan_to_value :: "ndarray \<Rightarrow> elt \<Rightarrow> ndarray" where
  "nan_to_value array v = array\<lparr>data := map (\<lambda>e. if e = NaN then v else e) (data array)\<rparr>"

text \<open>
  The values \<open>squeeze\<close> can be given: Python is dynamically typed, and the code tells
  them apart with \<open>==\<close> and \<open>type\<close>.
\<close>

datatype pyval = PyBool bool | PyInt int | PyFloat rat | PyStr string | PyNone

text \<open>\<open>x == True\<close>: \<open>True\<close> is the integer 1 in a comparison.\<close>

fun py_eq_True :: "pyval \<Rightarrow> bool" where
  "py_eq_True (PyBool b) = b"
| "py_eq_True (PyInt i) = (i = 1)"
| "py_eq_True (PyFloat f) = (f = 1)"
| "py_eq_True _ = False"

text \<open>\<open>type(x) == int\<close>: \<open>bool\<close> is a subclass of \<open>int\<close>, but \<open>type\<close> is exact.\<close>

fun py_type_is_int :: "pyval \<Rightarrow> bool" where
  "py_type_is_int (PyInt i) = True"
| "py_type_is_int _ = False"

fun py_int_value :: "pyval \<Rightarrow> int" where
  "py_int_value (PyInt i) = i"
| "py_int_value _ = 0"

record Torchify =
  squeeze :: pyval
  nanvalue :: elt

text \<open>The branch of the \<open>if\<close>/\<open>elif\<close>/\<open>else\<close> that \<open>__call__\<close> takes.\<close>

datatype squeeze_branch = Squeeze_all | Squeeze_axis int | No_squeeze

definition Torchify_branch :: "pyval \<Rightarrow> squeeze_branch" where
  "Torchify_branch s =
     (if py_eq_True s then Squeeze_all
      else if py_type_is_int s then Squeeze_axis (py_int_value s)
      else No_squeeze)"

definition Torchify_call :: "Torchify \<Rightarrow> ndarray \<Rightarrow> exn + ndarray" where
  "Torchify_call self array =
     (case torchify array of
        Inl e \<Rightarrow> Inl e
      | Inr array1 \<Rightarrow>
          (let array2 = nan_to_value array1 (nanvalue self) in
           case Torchify_branch (squeeze self) of
             Squeeze_all \<Rightarrow> Inr (ndarray_squeeze array2)
           | Squeeze_axis axis \<Rightarrow> ndarray_squeeze_axis array2 axis
           | No_squeeze \<Rightarrow> Inr array2))"

section \<open>eo-learn patches, tasks and workflows\<close>

text \<open>
  The notebooks build their pipelines from eo-learn objects: an \<open>EOPatch\<close> is a dictionary
  from a feature (its type and its name) to a value, an \<open>EOTask\<close> maps patches to a
  patch, an \<open>EONode\<close> is a task with the nodes whose results it takes, and a workflow
  built from an end node executes every node after the nodes it takes its input from.
  eo-learn is a library the repository calls; what is modelled of it is what the
  notebooks rely on.
\<close>

datatype FeatureType = DATA | MASK | SCALAR_TIMELESS | DATA_TIMELESS | MASK_TIMELESS | META_INFO

text \<open>A feature's value: an array, or (under \<open>META_INFO\<close>) a Python boolean.\<close>

datatype feature = Array ndarray | Flag bool

type_synonym feature_key = "FeatureType \<times> string"

type_synonym EOPatch = "feature_key \<rightharpoonup> feature"

type_synonym kwargs = "string \<rightharpoonup> string"

text \<open>What an execution leaves behind: the nodes run, in order, and the files written.\<close>

datatype event = Run string | SavedPatch string string | WroteTiff string string feature_key

type_synonym world = "event list"

text \<open>
  The tasks the notebooks construct, with the arguments that matter here. The first six
  are tasks whose work is done outside the notebooks (the Sentinel Hub downloads, the
  framework's own task classes, the trained model): what they return is given by the
  environment.
\<close>

datatype EOTask =
    SentinelHubInputTask
  | SentinelHubEvalscriptTask
  | PickIdxTask
  | TDigestTask
  | JoinMasksTask
  | ModelForwardTask
  | MapFeatureTask feature_key feature_key "ndarray \<Rightarrow> bool"
  | ZipFeatureTask "feature_key list" feature_key "feature list \<Rightarrow> bool"
  | MergeEOPatchesTask
  | SaveValidTask feature_key string
  | SaveTask string
  | ExportToTiffTask feature_key string bool

type_synonym env = "EOTask \<Rightarrow> EOPatch list \<Rightarrow> kwargs \<Rightarrow> exn + EOPatch"

definition kwarg :: "kwargs \<Rightarrow> string \<Rightarrow> string" where
  "kwarg kw k = (case kw k of None \<Rightarrow> [] | Some v \<Rightarrow> v)"

text \<open>Python's truth value of a feature's value, as \<open>if value:\<close> and \<open>np.all\<close> see it.\<close>

fun truthy :: "feature \<Rightarrow> bool" where
  "truthy (Flag b) = b"
| "truthy (Array a) = np_all a"

text \<open>
  Modelled from the spec: \<open>SaveValidTask\<close> is a task class of the framework
  (\<^verbatim>\<open>tasks/SaveValidTask.py\<close>) whose code is not among the sources. The acquisition notebook
  says "only valid EOPatches are saved using the Save-Valid-Task": the task writes the
  patch to \<open>path/eopatch_folder\<close>, as \<open>SaveTask\<close> does, when the value of
  \<open>feature_to_check\<close> is true, writes nothing otherwise, and returns the patch.
\<close>

definition SaveValidTask_execute ::
  "feature_key \<Rightarrow> string \<Rightarrow> EOPatch \<Rightarrow> kwargs \<Rightarrow> world \<Rightarrow> (exn + EOPatch) \<times> world" where
  "SaveValidTask_execute feature_to_check path p kw w =
     (case p feature_to_check of
        None \<Rightarrow> (Inl KeyError, w)
      | Some v \<Rightarrow>
          if truthy v then (Inr p, w @ [SavedPatch path (kwarg kw ''eopatch_folder'')])
          else (Inr p, w))"

text \<open>
  \<open>MapFeatureTask\<close> stores \<open>map_function(eopatch[input])\<close> under the output feature;
  \<open>ZipFeatureTask\<close> stores \<open>zip_function(*[eopatch[f] for f in inputs])\<close>;
  \<open>MergeEOPatchesTask\<close> joins the features of two patches (a feature of both is kept
  from the second one here: the workflows merge patches whose checked features differ);
  \<open>SaveTask\<close> writes the patch to \<open>path/eopatch_folder\<close>;
  \<open>ExportToTiffTask\<close> writes the feature to \<open>folder/filename\<close> and, when the patch
  lacks the feature, raises ValueError if \<open>fail_on_missing\<close> and returns the patch
  unchanged otherwise. A task given the wrong number of patches raises TypeError.
\<close>

fun run_task :: "env \<Rightarrow> EOTask \<Rightarrow> EOPatch list \<Rightarrow> kwargs \<Rightarrow> world \<Rightarrow> (exn + EOPatch) \<times> world" where
  "run_task env (MapFeatureTask inp out f) ps kw w =
     (case ps of
        [p] \<Rightarrow>
          (case p inp of
             Some (Array a) \<Rightarrow> (Inr (p(out \<mapsto> Flag (f a))), w)
           | Some (Flag b) \<Rightarrow> (Inl TypeError, w)
           | None \<Rightarrow> (Inl KeyError, w))
      | _ \<Rightarrow> (Inl TypeError, w))"
| "run_task env (ZipFeatureTask inps out f) ps kw w =
     (case ps of
        [p] \<Rightarrow>
          if list_all (\<lambda>k. p k \<noteq> None) inps
          then (Inr (p(out \<mapsto> Flag (f (map (\<lambda>k. the (p k)) inps)))), w)
          else (Inl KeyError, w)
      | _ \<Rightarrow> (Inl TypeError, w))"
| "run_task env MergeEOPatchesTask ps kw w =
     (case ps of
        [p, q] \<Rightarrow> (Inr (p ++ q), w)
      | _ \<Rightarrow> (Inl TypeError, w))"
| "run_task env (SaveValidTask feature_to_check path) ps kw w =
     (case ps of
        [p] \<Rightarrow> SaveValidTask_execute feature_to_check path p kw w
      | _ \<Rightarrow> (Inl TypeError, w))"
| "run_task env (SaveTask path) ps kw w =
     (case ps of
        [p] \<Rightarrow> (Inr p, w @ [SavedPatch path (kwarg kw ''eopatch_folder'')])
      | _ \<Rightarrow> (Inl TypeError, w))"
| "run_task env (ExportToTiffTask feat folder fail_on_missing) ps kw w =
     (case ps of
        [p] \<Rightarrow>
          (case p feat of
             None \<Rightarrow> if fail_on_missing then (Inl ValueError, w) else (Inr p, w)
           | Some v \<Rightarrow> (Inr p, w @ [WroteTiff folder (kwarg kw ''filename'') feat]))
      | _ \<Rightarrow> (Inl TypeError, w))"
| "run_task env SentinelHubInputTask ps kw w = (env SentinelHubInputTask ps kw, w)"
| "run_task env SentinelHubEvalscriptTask ps kw w = (env SentinelHubEvalscriptTask ps kw, w)"
| "run_task env PickIdxTask ps kw w = (env PickIdxTask ps kw, w)"
| "run_task env TDigestTask ps kw w = (env TDigestTask ps kw, w)"
| "run_task env JoinMasksTask ps kw w = (env JoinMasksTask ps kw, w)"
| "run_task env ModelForwardTask ps kw w = (env ModelForwardTask ps kw, w)"

datatype EONode = EONode (task: EOTask) (inputs: "EONode list") (name: string)

text \<open>
  \<open>EOWorkflow.from_endnodes(node).execute(args)\<close>: the nodes the end node depends on are
  run first, each with the keyword arguments given for it, and each node's task receives
  the patches its input nodes returned. The first exception ends the execution. (No node
  of the notebooks is an input of two nodes, so every node runs once.)
\<close>

fun execute_node :: "env \<Rightarrow> (string \<Rightarrow> kwargs) \<Rightarrow> EONode \<Rightarrow> world \<Rightarrow> (exn + EOPatch) \<times> world"
  and execute_nodes :: "env \<Rightarrow> (string \<Rightarrow> kwargs) \<Rightarrow> EONode list \<Rightarrow> world \<Rightarrow> (exn + EOPatch list) \<times> world" where
  "execute_node env args (EONode t ins nm) w =
     (case execute_nodes env args ins w of
        (Inl e, w1) \<Rightarrow> (Inl e, w1)
      | (Inr ps, w1) \<Rightarrow> run_task env t ps (args nm) (w1 @ [Run nm]))"
| "execute_nodes env args [] w = (Inr [], w)"
| "execute_nodes env args (n # ns) w =
     (case execute_node env args n w of
        (Inl e, w1) \<Rightarrow> (Inl e, w1)
      | (Inr p, w1) \<Rightarrow>
          (case execute_nodes env args ns w1 of
             (Inl e, w2) \<Rightarrow> (Inl e, w2)
           | (Inr ps, w2) \<Rightarrow> (Inr (p # ps), w2)))"


text \<open>
  The edges of the graph below a node, each as the names of an input node and of the node
  that takes its result; and whether a node has run before another one runs.
\<close>

fun edges :: "EONode \<Rightarrow> (string \<times> string) list"
  and edges_of_nodes :: "EONode list \<Rightarrow> (string \<times> string) list" where
  "edges (EONode t ins nm) = map (\<lambda>m. (name m, nm)) ins @ edges_of_nodes ins"
| "edges_of_nodes [] = []"
| "edges_of_nodes (n # ns) = edges n @ edges_of_nodes ns"


section \<open>Python floats\<close>

text \<open>
  A Python float is an IEEE 754 double: a number with 53 significant bits. Among the
  naturals the doubles are those whose binary digits after the first 53 are zero, and
  rounding goes to the nearest of them, to the one with an even 53rd digit on a tie.
\<close>

fun bit_length :: "nat \<Rightarrow> nat" where
  "bit_length n = (if n = 0 then 0 else Suc (bit_length (n div 2)))"

declare bit_length.simps [simp del]

definition round_to_double :: "nat \<Rightarrow> nat" where
  "round_to_double m =
     (let s = bit_length m - 53;
          q = m div 2 ^ s;
          r = m mod 2 ^ s
      in if 2 * r < 2 ^ s \<or> (2 * r = 2 ^ s \<and> even q) then q * 2 ^ s else (q + 1) * 2 ^ s)"

text \<open>
  \<open>0.05 * n\<close> for an integer \<open>n\<close>: the literal \<open>0.05\<close> is the double
  \<open>0x3FA999999999999A\<close>, which is \<open>3602879701896397 / 2^56\<close>; \<open>n\<close> is converted to a
  double, and the exact product of the two doubles is rounded to a double.
\<close>

definition float_mul_0_05 :: "nat \<Rightarrow> rat" where
  "float_mul_0_05 n = rat_of_nat (round_to_double (3602879701896397 * round_to_double n)) / 2 ^ 56"

section \<open>The acquisition workflow of the water segmentation\<close>

text \<open>
  \<^verbatim>\<open>01_DataAcquisition.ipynb\<close>:

  \<^verbatim>\<open>
  def checker_nodata(array):
      return bool(np.all(array))

  def checker_waterdata(array):
      return bool(np.count_nonzero(array)>=0.05*array.size)

  def zipper(*arrays):
      return bool(np.all([np.all(array) for array in arrays]))
  \<close>

  The product \<open>0.05*array.size\<close> is a product of floats, and Python compares the
  integer count with it exactly.
\<close>

definition checker_nodata :: "ndarray \<Rightarrow> bool" where
  "checker_nodata array = np_all array"

definition checker_waterdata :: "ndarray \<Rightarrow> bool" where
  "checker_waterdata array =
     (rat_of_nat (np_count_nonzero array) \<ge> float_mul_0_05 (np_size array))"

definition zipper :: "feature list \<Rightarrow> bool" where
  "zipper arrays = list_all (\<lambda>b. b) (map truthy arrays)"

text \<open>
  \<^verbatim>\<open>
  task_data_check = MapFeatureTask(
      input_features = (FeatureType.MASK, "dmask_data"),
      output_features = (FeatureType.META_INFO, "valid_data"),
      map_function = checker_nodata)
  task_reference_check = MapFeatureTask(
      input_features = (FeatureType.MASK_TIMELESS, "reference"),
      output_features = (FeatureType.META_INFO, "valid_reference"),
      map_function = checker_waterdata)
  task_zip = ZipFeatureTask(
      input_features = [(FeatureType.META_INFO, "valid_data"),
                        (FeatureType.META_INFO, "valid_reference")],
      output_feature = (FeatureType.META_INFO, "valid"),
      zip_function = zipper)
  task_merge = MergeEOPatchesTask(time_dependent_op = "concatenate", timeless_op = "concatenate")
  task_save = SaveValidTask(
      feature_to_check = (FeatureType.META_INFO, "valid"),
      path = config["dir_data"], ...)
  \<close>

  A value of the configuration is written as its key: \<open>config["dir_data"]\<close> is
  \<open>''dir_data''\<close>.
\<close>

definition task_data :: EOTask where
  "task_data = SentinelHubInputTask"

definition task_pick :: EOTask where
  "task_pick = PickIdxTask"

definition task_tdigest :: EOTask where
  "task_tdigest = TDigestTask"

definition task_reference :: EOTask where
  "task_reference = SentinelHubEvalscriptTask"

definition task_reference_mask :: EOTask where
  "task_reference_mask = JoinMasksTask"

definition task_data_check :: EOTask where
  "task_data_check = MapFeatureTask (MASK, ''dmask_data'') (META_INFO, ''valid_data'') checker_nodata"

definition task_reference_check :: EOTask where
  "task_reference_check =
     MapFeatureTask (MASK_TIMELESS, ''reference'') (META_INFO, ''valid_reference'') checker_waterdata"

definition task_zip :: EOTask where
  "task_zip =
     ZipFeatureTask [(META_INFO, ''valid_data''), (META_INFO, ''valid_reference'')]
       (META_INFO, ''valid'') zipper"

definition task_merge :: EOTask where
  "task_merge = MergeEOPatchesTask"

definition task_save :: EOTask where
  "task_save = SaveValidTask (META_INFO, ''valid'') ''dir_data''"

text \<open>The nodes, with the inputs and the names the notebook gives them.\<close>

definition node_data :: EONode where
  "node_data = EONode task_data [] ''load Sentinel-1 data''"

definition node_pick :: EONode where
  "node_pick = EONode task_pick [node_data] ''pick closest observation to reference''"

definition node_tdigest :: EONode where
  "node_tdigest = EONode task_tdigest [node_pick] ''compute T-Digest''"

definition node_data_check :: EONode where
  "node_data_check = EONode task_data_check [node_tdigest] ''check data for completeness''"

definition node_reference :: EONode where
  "node_reference = EONode task_reference [] ''load Sentinel-2 based reference''"

definition node_reference_mask :: EONode where
  "node_reference_mask = EONode task_reference_mask [node_reference] ''merge reference masks to one''"

definition node_reference_check :: EONode where
  "node_reference_check =
     EONode task_reference_check [node_reference_mask] ''check reference for completeness''"

definition node_merge :: EONode where
  "node_merge =
     EONode task_merge [node_data_check, node_reference_check] ''merge data and reference EOPatches''"

definition node_zip :: EONode where
  "node_zip = EONode task_zip [node_merge] ''zip checking criterions''"

definition node_save :: EONode where
  "node_save = EONode task_save [node_zip] ''save valid EOPatch''"

text \<open>\<open>workflow = EOWorkflow.from_endnodes(node_save)\<close>, executed on one workflow argument.\<close>

definition workflow_execute :: "env \<Rightarrow> (string \<Rightarrow> kwargs) \<Rightarrow> world \<Rightarrow> (exn + EOPatch) \<times> world" where
  "workflow_execute env args w = execute_node env args node_save w"

section \<open>The showcase workflow of the water segmentation\<close>










section \<open>The notebook sequences of the example pipelines\<close>












section \<open>The workflow-argument loops\<close>

text \<open>
  Both notebooks of the water segmentation collect the arguments of their workflow in a
  loop that queries Sentinel Hub. The queries, the random indices and the file system
  are the environment; a query returns its timestamps or raises.
\<close>

type_synonym timestamp = int

type_synonym time_interval = "timestamp \<times> timestamp"

datatype DataCollection = SENTINEL2_L1C | SENTINEL1_IW

text \<open>A bounding box is named by its list and its index: \<open>bbox_lists[_][i]\<close>.\<close>

type_synonym bbox = "string \<times> nat"

text \<open>What \<open>print\<close> wrote, call by call.\<close>

datatype printed =
    Print_text string
  | Print_progress nat nat
  | Print_exception exn time_interval
  | Print_newline
  | Print_number nat

record workflow_arg =
  data_bbox :: bbox
  data_time_interval :: time_interval
  reference_bbox :: bbox
  reference_time_interval :: timestamp
  save_eopatch_folder :: "string \<times> nat \<times> timestamp"

record cell_state =
  workflow_args :: "workflow_arg list"
  stdout :: "printed list"

record acquisition_env =
  len_bbox_list :: "string \<Rightarrow> nat"
  randint :: "nat \<Rightarrow> nat \<Rightarrow> nat list"
  get_available_timestamps :: "bbox \<Rightarrow> DataCollection \<Rightarrow> time_interval \<Rightarrow> exn + timestamp list"
  config_start :: "string \<Rightarrow> timestamp"
  config_end :: "string \<Rightarrow> timestamp"
  datatimedelta :: int
  os_path_exists :: "string \<times> nat \<times> timestamp \<Rightarrow> bool"

text \<open>
  \<^verbatim>\<open>01_DataAcquisition.ipynb\<close>:

  \<^verbatim>\<open>
  workflow_args = []
  for _ in ["train","validation","test"]:
      print(_)
      bbox_list_ = bbox_lists[_]
      for i in np.random.randint(0,len(bbox_list_),40 if _=="train" else 10):
          print(f"\r{i+1}/{len(bbox_list_)}",end="\r")
          timestamps_ = get_available_timestamps(
              bbox = bbox_list_[i], data_collection = DataCollection.SENTINEL2_L1C,
              time_interval = (config[f"start_{_}"],config[f"end_{_}"]), ...)
          for timestamp_ in timestamps_:
              try:
                  timestamps2_ = get_available_timestamps(
                      bbox = bbox_list_[i], data_collection = DataCollection.SENTINEL1_IW,
                      time_interval = (timestamp_-config["datatimedelta"],timestamp_), ...)
                  if timestamps2_:
                      dir_ = f"{_}/eopatch_{i}_{timestamp_.strftime(...)}"
                      if not os.path.exists(os.path.join(config["dir_data"],dir_)):
                          workflow_args.append({
                              node_data: {"bbox":bbox_list_[i],
                                  "time_interval":(timestamp_-config["datatimedelta"],timestamp_)},
                              node_reference: {"bbox":bbox_list_[i],"time_interval":timestamp_},
                              node_save: {"eopatch_folder":dir_}})
              except Exception as e:
                  print(e,(timestamp_-config["datatimedelta"],timestamp_))
      print()
  print(f"Number of downloads: {len(workflow_args)}")
  \<close>

  The folder \<open>dir_\<close> is named by the split, the index and the timestamp it is formatted
  from. The inner loop is the only code inside \<open>try\<close>; \<open>np.random.randint(0, 0, n)\<close> raises
  ValueError.
\<close>

definition timestamp_step :: "acquisition_env \<Rightarrow> string \<Rightarrow> nat \<Rightarrow> timestamp \<Rightarrow> cell_state \<Rightarrow> cell_state" where
  "timestamp_step env split i stamp st =
     (case get_available_timestamps env (split, i) SENTINEL1_IW
             (stamp - datatimedelta env, stamp) of
        Inr timestamps2 \<Rightarrow>
          if timestamps2 \<noteq> [] \<and> \<not> os_path_exists env (split, i, stamp)
          then st\<lparr>workflow_args := workflow_args st @
                 [\<lparr>data_bbox = (split, i),
                   data_time_interval = (stamp - datatimedelta env, stamp),
                   reference_bbox = (split, i),
                   reference_time_interval = stamp,
                   save_eopatch_folder = (split, i, stamp)\<rparr>]\<rparr>
          else st
      | Inl e \<Rightarrow>
          st\<lparr>stdout := stdout st @
               [Print_exception e (stamp - datatimedelta env, stamp)]\<rparr>)"

fun timestamp_loop :: "acquisition_env \<Rightarrow> string \<Rightarrow> nat \<Rightarrow> timestamp list \<Rightarrow> cell_state \<Rightarrow> cell_state" where
  "timestamp_loop env split i [] st = st"
| "timestamp_loop env split i (stamp # timestamps) st =
     timestamp_loop env split i timestamps (timestamp_step env split i stamp st)"

fun bbox_loop :: "acquisition_env \<Rightarrow> string \<Rightarrow> nat list \<Rightarrow> cell_state \<Rightarrow> exn + cell_state" where
  "bbox_loop env split [] st = Inr st"
| "bbox_loop env split (i # indices) st =
     (let st1 = st\<lparr>stdout := stdout st @ [Print_progress (i + 1) (len_bbox_list env split)]\<rparr> in
      case get_available_timestamps env (split, i) SENTINEL2_L1C
             (config_start env split, config_end env split) of
        Inl e \<Rightarrow> Inl e
      | Inr timestamps \<Rightarrow>
          bbox_loop env split indices (timestamp_loop env split i timestamps st1))"

fun split_loop :: "acquisition_env \<Rightarrow> string list \<Rightarrow> cell_state \<Rightarrow> exn + cell_state" where
  "split_loop env [] st = Inr st"
| "split_loop env (split # splits) st =
     (let st1 = st\<lparr>stdout := stdout st @ [Print_text split]\<rparr> in
      if len_bbox_list env split = 0 then Inl ValueError
      else
        case bbox_loop env split
               (randint env (len_bbox_list env split) (if split = ''train'' then 40 else 10)) st1 of
          Inl e \<Rightarrow> Inl e
        | Inr st2 \<Rightarrow> split_loop env splits (st2\<lparr>stdout := stdout st2 @ [Print_newline]\<rparr>))"

definition workflow_args_cell :: "acquisition_env \<Rightarrow> exn + cell_state" where
  "workflow_args_cell env =
     (case split_loop env [''train'', ''validation'', ''test'']
             \<lparr>workflow_args = [], stdout = []\<rparr> of
        Inl e \<Rightarrow> Inl e
      | Inr st \<Rightarrow> Inr (st\<lparr>stdout := stdout st @ [Print_number (length (workflow_args st))]\<rparr>))"

text \<open>
  \<^verbatim>\<open>04_PyTorchTasks_ModelForwardTask.ipynb\<close>:

  \<^verbatim>\<open>
  workflow_args = []
  bbox_list_ = bbox_list_showcase
  for i in range(len(bbox_list_)):
      print(f"\rChecking workflow args {i+1}/{len(bbox_list_)}",end="\r")
      try:
          timeinterval = parse_time_interval_observations(
              time_interval = (config["n_observations_showcase"],config["end_showcase"]),
              bbox = bbox_list_[i], ...)
          timeintervalstring = f"{timeinterval[0].strftime(...)}--{timeinterval[1].strftime(...)}"
          dir_ = f"showcase/eopatch_{i}_{timeintervalstring}"
          if not os.path.exists(os.path.join(config["dir_data"],dir_)):
              workflow_args.append({
                  node_data: {"bbox":bbox_list_[i],"time_interval":timeinterval},
                  node_tiff: {"filename": f"water_{i}_{timeintervalstring}"},
                  node_save: {"eopatch_folder":dir_}})
      except Exception as e:
          print(e,timeinterval)
  print()
  print(f"Number of downloads/calculations: {len(workflow_args)}")
  \<close>

  The handler prints the variable \<open>timeinterval\<close>, which the notebook binds nowhere but
  inside \<open>try\<close>: the state carries its binding, and reading it unbound raises NameError
  from inside the handler, where nothing catches it.
\<close>

record showcase_arg =
  showcase_bbox :: nat
  showcase_time_interval :: time_interval
  tiff_filename :: "nat \<times> time_interval"
  showcase_eopatch_folder :: "nat \<times> time_interval"

record showcase_state =
  showcase_workflow_args :: "showcase_arg list"
  showcase_stdout :: "printed list"
  timeinterval :: "time_interval option"

record showcase_env =
  len_bbox_list_showcase :: nat
  parse_time_interval_observations :: "nat \<Rightarrow> exn + time_interval"
  showcase_path_exists :: "nat \<times> time_interval \<Rightarrow> bool"

fun showcase_loop :: "showcase_env \<Rightarrow> nat list \<Rightarrow> showcase_state \<Rightarrow> exn + showcase_state" where
  "showcase_loop env [] st = Inr st"
| "showcase_loop env (i # indices) st =
     (let st1 = st\<lparr>showcase_stdout := showcase_stdout st @
                   [Print_progress (i + 1) (len_bbox_list_showcase env)]\<rparr> in
      case parse_time_interval_observations env i of
        Inr ti \<Rightarrow>
          showcase_loop env indices
            (if \<not> showcase_path_exists env (i, ti)
             then st1\<lparr>timeinterval := Some ti,
                      showcase_workflow_args := showcase_workflow_args st1 @
                        [\<lparr>showcase_bbox = i, showcase_time_interval = ti,
                          tiff_filename = (i, ti), showcase_eopatch_folder = (i, ti)\<rparr>]\<rparr>
             else st1\<lparr>timeinterval := Some ti\<rparr>)
      | Inl e \<Rightarrow>
          (case timeinterval st1 of
             None \<Rightarrow> Inl NameError
           | Some ti \<Rightarrow>
               showcase_loop env indices
                 (st1\<lparr>showcase_stdout := showcase_stdout st1 @ [Print_exception e ti]\<rparr>)))"

definition showcase_args_cell :: "showcase_env \<Rightarrow> exn + showcase_state" where
  "showcase_args_cell env =
     (case showcase_loop env [0..<len_bbox_list_showcase env]
             \<lparr>showcase_workflow_args = [], showcase_stdout = [], timeinterval = None\<rparr> of
        Inl e \<Rightarrow> Inl e
      | Inr st \<Rightarrow>
          Inr (st\<lparr>showcase_stdout := showcase_stdout st @
                   [Print_newline, Print_number (length (showcase_workflow_args st))]\<rparr>))"


section \<open>Example inputs\<close>

text \<open>
  An environment whose T-Digest node returns a patch with the given data mask and whose
  mask-joining node returns a patch with the given reference mask, and the workflow
  argument of one patch.
\<close>

definition example_args :: "string \<Rightarrow> kwargs" where
  "example_args n =
     (if n = ''save valid EOPatch'' then [''eopatch_folder'' \<mapsto> ''train/eopatch_0'']
      else Map.empty)"

definition example_env :: "ndarray \<Rightarrow> ndarray \<Rightarrow> env" where
  "example_env dmask_data reference t ps kw =
     (case t of
        TDigestTask \<Rightarrow> Inr [(MASK, ''dmask_data'') \<mapsto> Array dmask_data]
      | JoinMasksTask \<Rightarrow> Inr [(MASK_TIMELESS, ''reference'') \<mapsto> Array reference]
      | _ \<Rightarrow> Inr Map.empty)"

text \<open>
  An acquisition environment with one bounding box per list, the index 0 drawn once, and
  the given answers of the Sentinel-2 and the Sentinel-1 query; a showcase environment
  with two bounding boxes and the given interval query.
\<close>

definition example_acquisition_env ::
  "(exn + timestamp list) \<Rightarrow> (exn + timestamp list) \<Rightarrow> acquisition_env" where
  "example_acquisition_env s2 s1 =
     \<lparr>len_bbox_list = (\<lambda>split. 1),
      randint = (\<lambda>high n. [0]),
      get_available_timestamps =
        (\<lambda>b c ti. case c of SENTINEL2_L1C \<Rightarrow> s2 | SENTINEL1_IW \<Rightarrow> s1),
      config_start = (\<lambda>split. 0),
      config_end = (\<lambda>split. 100),
      datatimedelta = 7,
      os_path_exists = (\<lambda>dir. False)\<rparr>"

definition example_showcase_env :: "(nat \<Rightarrow> exn + time_interval) \<Rightarrow> showcase_env" where
  "example_showcase_env parse =
     \<lparr>len_bbox_list_showcase = 2,
      parse_time_interval_observations = parse,
      showcase_path_exists = (\<lambda>dir. False)\<rparr>"



section \<open>Theorems\<close>

subsection \<open>The reference evalscript\<close>

text \<open>
  C7. For every pixel, the water label in the output band \<open>reference\<close> is 1 if the NDWI
  value \<open>index(B03, B8A)\<close> is strictly greater than 0.1 (the double the literal stands
  for, which exceeds one tenth by \<open>1 / (5 * 2^55)\<close>) and 0 otherwise, also when the index
  is NaN; the raw NDWI value is returned in the output band \<open>NDWI\<close>.
\<close>

theorem evaluatePixel_reference_NDWI:
  "map_of (evaluatePixel index s) ''reference''
     = Some [if js_gt (index (B03 s) (B8A s)) (JNum double_0_1) then JNum 1 else JNum 0]
   \<and> map_of (evaluatePixel index s) ''NDWI'' = Some [index (B03 s) (B8A s)]
   \<and> (\<forall>v. index (B03 s) (B8A s) = JNum v \<longrightarrow>
         map_of (evaluatePixel index s) ''reference''
           = Some [JNum (if v > double_0_1 then 1 else 0)])
   \<and> (index (B03 s) (B8A s) = JNaN \<longrightarrow>
         map_of (evaluatePixel index s) ''reference'' = Some [JNum 0])
   \<and> double_0_1 = 1 / 10 + 1 / (5 * 2 ^ 55)"
  by (simp add: evaluatePixel_def Let_def js_gt_def double_0_1_def)

theorem evaluatePixel_reference_NDWI_witness:
  "(\<lambda>a b. JNum (1 / 2)) (JNum 3000) (JNum 1000) = JNum (1 / 2)
   \<and> map_of (evaluatePixel (\<lambda>a b. JNum (1 / 2))
        \<lparr>B02 = JNum 0, B03 = JNum 3000, B04 = JNum 0, B08 = JNum 0, B8A = JNum 1000,
         B11 = JNum 0, dataMask = JNum 1, CLM = JNum 0\<rparr>) ''reference'' = Some [JNum 1]
   \<and> (\<lambda>a b. JNum double_0_1) (JNum 11) (JNum 9) = JNum double_0_1
   \<and> map_of (evaluatePixel (\<lambda>a b. JNum double_0_1)
        \<lparr>B02 = JNum 0, B03 = JNum 11, B04 = JNum 0, B08 = JNum 0, B8A = JNum 9,
         B11 = JNum 0, dataMask = JNum 1, CLM = JNum 0\<rparr>) ''reference'' = Some [JNum 0]
   \<and> (\<lambda>a b. JNaN) (JNum 0) (JNum 0) = JNaN
   \<and> map_of (evaluatePixel (\<lambda>a b. JNaN)
        \<lparr>B02 = JNum 0, B03 = JNum 0, B04 = JNum 0, B08 = JNum 0, B8A = JNum 0,
         B11 = JNum 0, dataMask = JNum 0, CLM = JNum 0\<rparr>) ''reference'' = Some [JNum 0]"
  using evaluatePixel_reference_NDWI [of "\<lambda>a b. JNum (1 / 2)"
      "\<lparr>B02 = JNum 0, B03 = JNum 3000, B04 = JNum 0, B08 = JNum 0, B8A = JNum 1000,
        B11 = JNum 0, dataMask = JNum 1, CLM = JNum 0\<rparr>"]
    evaluatePixel_reference_NDWI [of "\<lambda>a b. JNum double_0_1"
      "\<lparr>B02 = JNum 0, B03 = JNum 11, B04 = JNum 0, B08 = JNum 0, B8A = JNum 9,
        B11 = JNum 0, dataMask = JNum 1, CLM = JNum 0\<rparr>"]
    evaluatePixel_reference_NDWI [of "\<lambda>a b. JNaN"
      "\<lparr>B02 = JNum 0, B03 = JNum 0, B04 = JNum 0, B08 = JNum 0, B8A = JNum 0,
        B11 = JNum 0, dataMask = JNum 0, CLM = JNum 0\<rparr>"]
  by (simp add: evaluatePixel_def Let_def js_gt_def double_0_1_def)

subsection \<open>Torchify\<close>

lemma length_concat_grid:
  "length (concat (map (\<lambda>k. map (f k) [0..<r]) [0..<c])) = c * r"
  by (induction c) simp_all

lemma nth_concat_grid:
  "k < c \<Longrightarrow> i < r \<Longrightarrow> concat (map (\<lambda>k. map (f k) [0..<r]) [0..<c]) ! (k * r + i) = f k i"
proof (induction c)
  case 0
  then show ?case by simp
next
  case (Suc c)
  show ?case
  proof (cases "k < c")
    case True
    have "Suc k * r \<le> c * r"
      using True by (intro mult_le_mono1) simp
    then have "k * r + i < c * r"
      using Suc.prems(2) by simp
    then show ?thesis
      using Suc True by (simp add: nth_append length_concat_grid)
  next
    case False
    then have "k = c"
      using Suc.prems(1) by simp
    then show ?thesis
      using Suc.prems(2) by (simp add: nth_append length_concat_grid)
  qed
qed

lemma Torchify_branch_axis_iff:
  "Torchify_branch s = Squeeze_axis i \<longleftrightarrow> s = PyInt i \<and> i \<noteq> 1"
  by (cases s) (auto simp: Torchify_branch_def)

lemma Torchify_branch_all_iff:
  "Torchify_branch s = Squeeze_all \<longleftrightarrow> s = PyBool True \<or> s = PyInt 1 \<or> s = PyFloat 1"
  by (cases s) (auto simp: Torchify_branch_def)

text \<open>
  C6 (as the code has it). For every array with at least one axis, \<open>__call__\<close> first
  moves the last axis to the front and replaces the NaN entries with the configured
  \<open>nanvalue\<close>, and then squeezes as the branch says. Constructed with \<open>squeeze=1\<close> it
  takes the squeeze-all branch, because \<open>1 == True\<close> in Python. The integer-axis branch
  \<open>squeeze(self.squeeze)\<close> is taken exactly for the integer values other than 1: the
  value 0 takes it too, since \<open>0 == True\<close> is false and \<open>type(0)\<close> is \<open>int\<close>.
\<close>

theorem Torchify_call_branches:
  "(shape array \<noteq> [] \<longrightarrow>
      (\<exists>array1.
         torchify array = Inr array1
         \<and> shape array1 = last (shape array) # butlast (shape array)
         \<and> length (data array1) = last (shape array) * prod_list (butlast (shape array))
         \<and> (\<forall>k i. k < last (shape array) \<and> i < prod_list (butlast (shape array)) \<longrightarrow>
                data array1 ! (k * prod_list (butlast (shape array)) + i)
                  = data array ! (i * last (shape array) + k))
         \<and> Torchify_call self array =
             (case Torchify_branch (squeeze self) of
                Squeeze_all \<Rightarrow> Inr (ndarray_squeeze (nan_to_value array1 (nanvalue self)))
              | Squeeze_axis axis \<Rightarrow> ndarray_squeeze_axis (nan_to_value array1 (nanvalue self)) axis
              | No_squeeze \<Rightarrow> Inr (nan_to_value array1 (nanvalue self)))))
   \<and> shape (nan_to_value a v) = shape a
   \<and> data (nan_to_value a v) = map (\<lambda>e. if e = NaN then v else e) (data a)
   \<and> Torchify_branch (PyInt 1) = Squeeze_all
   \<and> (Torchify_branch s = Squeeze_axis i \<longleftrightarrow> s = PyInt i \<and> i \<noteq> 1)"
proof -
  have move: "shape array \<noteq> [] \<longrightarrow>
      (\<exists>array1.
         torchify array = Inr array1
         \<and> shape array1 = last (shape array) # butlast (shape array)
         \<and> length (data array1) = last (shape array) * prod_list (butlast (shape array))
         \<and> (\<forall>k i. k < last (shape array) \<and> i < prod_list (butlast (shape array)) \<longrightarrow>
                data array1 ! (k * prod_list (butlast (shape array)) + i)
                  = data array ! (i * last (shape array) + k))
         \<and> Torchify_call self array =
             (case Torchify_branch (squeeze self) of
                Squeeze_all \<Rightarrow> Inr (ndarray_squeeze (nan_to_value array1 (nanvalue self)))
              | Squeeze_axis axis \<Rightarrow> ndarray_squeeze_axis (nan_to_value array1 (nanvalue self)) axis
              | No_squeeze \<Rightarrow> Inr (nan_to_value array1 (nanvalue self))))"
    by (simp add: torchify_def np_moveaxis_last_to_front_def Torchify_call_def Let_def
        length_concat_grid nth_concat_grid)
  have nan: "shape (nan_to_value a v) = shape a
      \<and> data (nan_to_value a v) = map (\<lambda>e. if e = NaN then v else e) (data a)"
    by (simp add: nan_to_value_def)
  have one: "Torchify_branch (PyInt 1) = Squeeze_all"
    by (simp add: Torchify_branch_def)
  show ?thesis
    using move nan one Torchify_branch_axis_iff [of s i] by blast
qed

theorem Torchify_call_branches_witness:
  "shape \<lparr>shape = [1, 2, 1], data = [Val 1, NaN]\<rparr> \<noteq> []
   \<and> (0::nat) < last [1, 2, 1] \<and> (1::nat) < prod_list (butlast [1, 2, 1])
   \<and> Torchify_call \<lparr>squeeze = PyInt 1, nanvalue = Val 0\<rparr> \<lparr>shape = [1, 2, 1], data = [Val 1, NaN]\<rparr>
       = Inr \<lparr>shape = [2], data = [Val 1, Val 0]\<rparr>
   \<and> Torchify_call \<lparr>squeeze = PyInt 2, nanvalue = Val 0\<rparr> \<lparr>shape = [1, 2, 1], data = [Val 1, NaN]\<rparr>
       = Inl ValueError
   \<and> Torchify_call \<lparr>squeeze = PyInt (- 3), nanvalue = Val 0\<rparr> \<lparr>shape = [1, 2, 1], data = [Val 1, NaN]\<rparr>
       = Inr \<lparr>shape = [1, 2], data = [Val 1, Val 0]\<rparr>"
  using Torchify_call_branches [of "\<lparr>shape = [1, 2, 1], data = [Val 1, NaN]\<rparr>"
      "\<lparr>squeeze = PyInt 1, nanvalue = Val 0\<rparr>" "\<lparr>shape = [1, 2, 1], data = [Val 1, NaN]\<rparr>" "Val 0" "PyInt 2" 2]
  by (simp add: Torchify_call_def torchify_def np_moveaxis_last_to_front_def Torchify_branch_def
      nan_to_value_def ndarray_squeeze_def ndarray_squeeze_axis_def Let_def eval_nat_numeral)

text \<open>
  As stated, the property excludes 0 from the integer-axis branch. With \<open>squeeze=0\<close> the code takes
  that branch: on an array of shape \<open>(1, 2, 1)\<close> it removes axis 0 only, where the
  squeeze-all branch (\<open>squeeze=1\<close>) removes both singleton axes and the else branch
  (\<open>squeeze=False\<close>) removes none. And an array without axes has no last axis to move:
  the call raises.
\<close>

theorem Torchify_squeeze_zero_counterexample:
  "Torchify_branch (PyInt 0) = Squeeze_axis 0
   \<and> Torchify_call \<lparr>squeeze = PyInt 0, nanvalue = Val 0\<rparr> \<lparr>shape = [1, 2, 1], data = [Val 1, NaN]\<rparr>
       = Inr \<lparr>shape = [1, 2], data = [Val 1, Val 0]\<rparr>
   \<and> Torchify_call \<lparr>squeeze = PyInt 1, nanvalue = Val 0\<rparr> \<lparr>shape = [1, 2, 1], data = [Val 1, NaN]\<rparr>
       = Inr \<lparr>shape = [2], data = [Val 1, Val 0]\<rparr>
   \<and> Torchify_call \<lparr>squeeze = PyBool False, nanvalue = Val 0\<rparr> \<lparr>shape = [1, 2, 1], data = [Val 1, NaN]\<rparr>
       = Inr \<lparr>shape = [1, 1, 2], data = [Val 1, Val 0]\<rparr>
   \<and> Torchify_call \<lparr>squeeze = PyBool False, nanvalue = Val 0\<rparr> \<lparr>shape = [], data = [NaN]\<rparr>
       = Inl AxisError"
  by (simp add: Torchify_call_def torchify_def np_moveaxis_last_to_front_def Torchify_branch_def
      nan_to_value_def ndarray_squeeze_def ndarray_squeeze_axis_def Let_def eval_nat_numeral)

subsection \<open>Rounding to doubles\<close>

lemma bit_length_bounds:
  "0 < n \<Longrightarrow> 2 ^ (bit_length n - 1) \<le> n \<and> n < 2 ^ bit_length n"
proof (induction n rule: bit_length.induct)
  case (1 n)
  show ?case
  proof (cases "n div 2 = 0")
    case True
    then have "n = 1" using "1.prems" by (simp add: div_eq_0_iff)
    then show ?thesis by (simp add: bit_length.simps)
  next
    case False
    then have ih: "2 ^ (bit_length (n div 2) - 1) \<le> n div 2 \<and> n div 2 < 2 ^ bit_length (n div 2)"
      using "1.IH" "1.prems" by simp
    have pos: "0 < bit_length (n div 2)"
      using False by (simp add: bit_length.simps [of "n div 2"])
    have bl: "bit_length n = Suc (bit_length (n div 2))"
      using "1.prems" by (simp add: bit_length.simps [of n])
    have "(2::nat) ^ (bit_length n - 1) = 2 * 2 ^ (bit_length (n div 2) - 1)"
      using pos bl by (cases "bit_length (n div 2)") simp_all
    moreover have "2 * (n div 2) \<le> n"
      by simp
    ultimately have lower: "2 ^ (bit_length n - 1) \<le> n"
      using ih by linarith
    have "n < 2 * 2 ^ bit_length (n div 2)"
      using ih by linarith
    then show ?thesis using lower bl by simp
  qed
qed

lemma bit_length_le: "n < 2 ^ k \<Longrightarrow> bit_length n \<le> k"
proof (cases "n = 0")
  case True
  then show ?thesis by (simp add: bit_length.simps)
next
  case False
  assume "n < 2 ^ k"
  have "2 ^ (bit_length n - 1) \<le> n" using False bit_length_bounds by simp
  then have "(2::nat) ^ (bit_length n - 1) < 2 ^ k" using \<open>n < 2 ^ k\<close> by linarith
  then have "bit_length n - 1 < k" by (simp add: power_strict_increasing_iff)
  then show ?thesis by simp
qed

lemma bit_length_ge: "2 ^ k \<le> n \<Longrightarrow> k < bit_length n"
proof -
  assume a: "2 ^ k \<le> n"
  have "(0::nat) < 2 ^ k" by simp
  then have "0 < n" using a by linarith
  then have "n < 2 ^ bit_length n" using bit_length_bounds by simp
  then have "(2::nat) ^ k < 2 ^ bit_length n" using a by linarith
  then show ?thesis by (simp add: power_strict_increasing_iff)
qed

lemma bit_length_eq: "2 ^ k \<le> n \<Longrightarrow> n < 2 ^ Suc k \<Longrightarrow> bit_length n = Suc k"
  using bit_length_le [of n "Suc k"] bit_length_ge [of k n] by simp

lemma round_to_double_exact: "m < 2 ^ 53 \<Longrightarrow> round_to_double m = m"
  using bit_length_le [of m 53] by (simp add: round_to_double_def)

lemma round_to_double_cases:
  fixes m :: nat
  defines "s \<equiv> bit_length m - 53"
  shows "round_to_double m = m div 2 ^ s * 2 ^ s \<and> 2 * (m mod 2 ^ s) \<le> 2 ^ s
       \<or> round_to_double m = (m div 2 ^ s + 1) * 2 ^ s \<and> 2 ^ s \<le> 2 * (m mod 2 ^ s)"
  unfolding round_to_double_def s_def Let_def by (auto simp: not_less)

lemma round_to_double_error:
  "2 ^ 53 * round_to_double m \<le> (2 ^ 53 + 1) * m \<and> (2 ^ 53 - 1) * m \<le> 2 ^ 53 * round_to_double m"
proof (cases "bit_length m \<le> 53")
  case True
  then have "round_to_double m = m"
    by (simp add: round_to_double_def)
  then show ?thesis by simp
next
  case False
  define s where "s = bit_length m - 53"
  define q where "q = m div 2 ^ s"
  define r where "r = m mod 2 ^ s"
  have s: "bit_length m = s + 53" "0 < s"
    using False by (simp_all add: s_def)
  have m: "m = q * 2 ^ s + r"
    by (simp only: q_def r_def div_mult_mod_eq)
  have "0 < m"
    using False by (cases "m = 0") (simp_all add: bit_length.simps)
  then have "2 ^ (bit_length m - 1) \<le> m"
    using bit_length_bounds by simp
  then have big: "2 ^ s * 2 ^ 52 \<le> m"
    using s by (simp add: power_add)
  obtain h :: nat where h: "2 ^ s = 2 * h"
    using s by (cases s) simp_all
  have hm: "2 ^ 53 * h \<le> m"
    using big h by simp
  from round_to_double_cases [of m]
  consider (down) "round_to_double m = q * 2 ^ s" "2 * r \<le> 2 ^ s"
    | (up) "round_to_double m = (q + 1) * 2 ^ s" "2 ^ s \<le> 2 * r"
    unfolding s_def [symmetric] q_def [symmetric] r_def [symmetric] by blast
  then show ?thesis
  proof cases
    case down
    have rh: "r \<le> h" using down(2) h by simp
    have eq: "round_to_double m + r = m" using down(1) m by simp
    have "2 ^ 53 * r \<le> 2 ^ 53 * h" using rh by (rule mult_le_mono2)
    then have "2 ^ 53 * r \<le> m" using hm by (rule le_trans)
    then show ?thesis using eq by (simp add: algebra_simps)
  next
    case up
    have "r < 2 ^ s" unfolding r_def by (rule mod_less_divisor) simp
    define d where "d = 2 ^ s - r"
    have d: "r + d = 2 ^ s" "d \<le> h"
      using \<open>r < 2 ^ s\<close> up(2) h by (simp_all add: d_def)
    have eq: "round_to_double m = m + d" using up(1) m d by (simp add: algebra_simps)
    have "2 ^ 53 * d \<le> 2 ^ 53 * h" using d(2) by (rule mult_le_mono2)
    then have "2 ^ 53 * d \<le> m" using hm by (rule le_trans)
    then show ?thesis using eq by (simp add: algebra_simps)
  qed
qed

lemma round_to_double_nudge:
  assumes "0 < c" "c < 2 ^ 49"
  shows "round_to_double (c * 2 ^ 56 + 4 * c) = c * 2 ^ 56"
proof -
  define b where "b = bit_length c - 1"
  have bl: "bit_length c = Suc b"
    using assms(1) by (cases "c = 0") (simp_all add: b_def bit_length.simps [of c])
  have c: "2 ^ b \<le> c" "c < 2 ^ Suc b"
    using bit_length_bounds [OF assms(1)] unfolding bl by simp_all
  have "2 ^ b < (2::nat) ^ 49"
    using c(1) assms(2) by linarith
  then have b: "b < 49"
    by (rule power_less_imp_less_exp [rotated]) simp
  define m where "m = c * 2 ^ 56 + 4 * c"
  have lower: "2 ^ (b + 56) \<le> m"
    using c(1) by (simp add: m_def power_add)
  have four: "4 * c < 2 ^ (b + 3)"
    using c(2) by (simp add: power_add)
  have "(2::nat) ^ (b + 3) \<le> 2 ^ 56"
    using b by (intro power_increasing) simp_all
  then have "4 * c < 2 ^ 56"
    using four by linarith
  moreover have "Suc c \<le> 2 ^ Suc b"
    using c(2) by simp
  then have "Suc c * 2 ^ 56 \<le> 2 ^ Suc b * 2 ^ 56"
    by (rule mult_le_mono1)
  ultimately have upper: "m < 2 ^ Suc (b + 56)"
    by (simp add: m_def power_add)
  have blm: "bit_length m = Suc (b + 56)"
    using lower upper by (rule bit_length_eq)
  have s: "bit_length m - 53 = b + 4"
    using blm by simp
  have split: "(2::nat) ^ 56 = 2 ^ (52 - b) * 2 ^ (b + 4)"
    using b by (simp flip: power_add)
  have r_small: "4 * c < 2 ^ (b + 4)"
    using four by (simp add: power_add)
  have md: "m = c * 2 ^ (52 - b) * 2 ^ (b + 4) + 4 * c"
    unfolding m_def split by (simp only: mult.assoc)
  have q: "m div 2 ^ (b + 4) = c * 2 ^ (52 - b)"
    unfolding md using r_small by (simp only: div_mult_self3 div_less add_0_right) 
  have r: "m mod 2 ^ (b + 4) = 4 * c"
    unfolding md using r_small by (simp only: mod_mult_self3 mod_less)
  have "2 * (4 * c) < 2 ^ (b + 4)"
    using four by (simp add: power_add)
  then have "round_to_double m = c * 2 ^ (52 - b) * 2 ^ (b + 4)"
    unfolding round_to_double_def s Let_def q r by (simp only: if_True simp_thms)
  then show ?thesis
    unfolding m_def split by (simp only: mult.assoc)
qed

lemma round_to_double_twentieth:
  assumes "n < 2 ^ 52"
  shows "round_to_double (3602879701896397 * n) \<le> c * 2 ^ 56 \<longleftrightarrow> n \<le> 20 * c"
proof -
  define R where "R = round_to_double (3602879701896397 * n)"
  have err: "2 ^ 53 * R \<le> (2 ^ 53 + 1) * (3602879701896397 * n)"
    "(2 ^ 53 - 1) * (3602879701896397 * n) \<le> 2 ^ 53 * R"
    using round_to_double_error [of "3602879701896397 * n"] by (simp_all add: R_def)
  consider (eq) "n = 20 * c" | (less) "n < 20 * c" | (greater) "20 * c < n"
    by linarith
  then have "R \<le> c * 2 ^ 56 \<longleftrightarrow> n \<le> 20 * c"
  proof cases
    case eq
    show ?thesis
    proof (cases "c = 0")
      case True
      then show ?thesis using eq by (simp add: R_def round_to_double_exact)
    next
      case False
      have c: "0 < c" "c < 2 ^ 49"
        using False assms eq by simp_all
      have prod: "3602879701896397 * n = c * 2 ^ 56 + 4 * c"
        using eq by simp
      have "R = c * 2 ^ 56"
        unfolding R_def prod by (rule round_to_double_nudge [OF c])
      then show ?thesis using eq by simp
    qed
  next
    case less
    have "R \<le> c * 2 ^ 56"
      using err(1) less assms by simp
    then show ?thesis using less by simp
  next
    case greater
    have "c * 2 ^ 56 < R"
      using err(2) greater assms by simp
    then show ?thesis using greater by simp
  qed
  then show ?thesis by (simp add: R_def)
qed

text \<open>
  The model on products Python shows: \<open>0.05*20\<close> is \<open>1.0\<close>, and \<open>0.05*3\<close> is
  \<open>0.15000000000000002\<close>, the double above three twentieths.
\<close>

lemma float_mul_0_05_examples:
  "float_mul_0_05 0 = 0"
  "float_mul_0_05 20 = 1"
  "float_mul_0_05 3 = 10808639105689192 / 2 ^ 56"
  "float_mul_0_05 3 > 3 / 20"
  by (simp_all add: float_mul_0_05_def round_to_double_def bit_length.simps Let_def)

subsection \<open>The acquisition workflow\<close>

lemmas acquisition_defs = workflow_execute_def node_save_def node_zip_def node_merge_def
  node_reference_check_def node_reference_mask_def node_reference_def node_data_check_def
  node_tdigest_def node_pick_def node_data_def task_save_def task_merge_def task_zip_def
  task_reference_check_def task_data_check_def task_reference_mask_def task_reference_def
  task_tdigest_def task_pick_def task_data_def

lemma nonzero_eq: "nonzero = (\<lambda>e. e \<noteq> Val 0)"
  by (rule ext) (simp add: nonzero_def)

lemma checker_nodata_iff:
  "checker_nodata array \<longleftrightarrow> (\<forall>e \<in> set (data array). e \<noteq> Val 0)"
  by (simp add: checker_nodata_def np_all_def nonzero_eq list_all_iff)

lemma checker_waterdata_iff:
  assumes "prod_list (shape array) < 2 ^ 52"
  shows "checker_waterdata array \<longleftrightarrow>
     prod_list (shape array) \<le> 20 * length (filter (\<lambda>e. e \<noteq> Val 0) (data array))"
proof -
  let ?c = "length (filter (\<lambda>e. e \<noteq> Val 0) (data array))"
  let ?n = "prod_list (shape array)"
  let ?R = "round_to_double (3602879701896397 * ?n)"
  have "?n < 2 ^ 53"
    using assms by simp
  then have "round_to_double ?n = ?n"
    by (rule round_to_double_exact)
  then have "checker_waterdata array \<longleftrightarrow> rat_of_nat ?R / 2 ^ 56 \<le> rat_of_nat ?c"
    by (simp add: checker_waterdata_def float_mul_0_05_def np_count_nonzero_def np_size_def
        nonzero_eq)
  also have "\<dots> \<longleftrightarrow> rat_of_nat ?R \<le> rat_of_nat (?c * 2 ^ 56)"
    by (simp add: divide_le_eq)
  also have "\<dots> \<longleftrightarrow> ?R \<le> ?c * 2 ^ 56"
    by (rule of_nat_le_iff)
  also have "\<dots> \<longleftrightarrow> ?n \<le> 20 * ?c"
    using assms by (rule round_to_double_twentieth)
  finally show ?thesis .
qed

lemma zipper_two: "zipper [Flag a, Flag b] \<longleftrightarrow> a \<and> b"
  by (simp add: zipper_def)

lemma acquisition_unfold:
  assumes "env SentinelHubInputTask [] (args ''load Sentinel-1 data'') = Inr p_data"
    and "env PickIdxTask [p_data] (args ''pick closest observation to reference'') = Inr p_pick"
    and "env TDigestTask [p_pick] (args ''compute T-Digest'') = Inr pd"
    and "env SentinelHubEvalscriptTask [] (args ''load Sentinel-2 based reference'') = Inr p_ref"
    and "env JoinMasksTask [p_ref] (args ''merge reference masks to one'') = Inr pr"
    and "pd (MASK, ''dmask_data'') = Some (Array dmask_data)"
    and "pr (MASK_TIMELESS, ''reference'') = Some (Array reference)"
    and "pr (META_INFO, ''valid_data'') = None"
  shows "workflow_execute env args w =
     (Inr ((pd((META_INFO, ''valid_data'') \<mapsto> Flag (checker_nodata dmask_data))
             ++ pr((META_INFO, ''valid_reference'') \<mapsto> Flag (checker_waterdata reference)))
           ((META_INFO, ''valid'') \<mapsto>
              Flag (zipper [Flag (checker_nodata dmask_data), Flag (checker_waterdata reference)]))),
      w @ [Run ''load Sentinel-1 data'', Run ''pick closest observation to reference'',
           Run ''compute T-Digest'', Run ''check data for completeness'',
           Run ''load Sentinel-2 based reference'', Run ''merge reference masks to one'',
           Run ''check reference for completeness'', Run ''merge data and reference EOPatches'',
           Run ''zip checking criterions'', Run ''save valid EOPatch'']
        @ (if zipper [Flag (checker_nodata dmask_data), Flag (checker_waterdata reference)]
           then [SavedPatch ''dir_data'' (kwarg (args ''save valid EOPatch'') ''eopatch_folder'')]
           else []))"
  using assms by (simp add: acquisition_defs SaveValidTask_execute_def map_add_def)

text \<open>
  C5. In the acquisition workflow, whenever the download nodes, the picking node, the
  T-Digest node and the mask-joining node return their patches, the patch is saved if and
  only if every element of its data mask \<open>dmask_data\<close> is nonzero and at least 5% of the
  pixels of its \<open>reference\<close> mask are nonzero; the feature \<open>valid\<close> that \<open>SaveValidTask\<close>
  checks is the conjunction of \<open>valid_data\<close> and \<open>valid_reference\<close>. (The reference patch
  comes from the download and the mask join and carries no \<open>valid_data\<close> of its own; the
  mask has fewer than \<open>2^52\<close> pixels, so that the float product decides as the exact
  twentieth does.)
\<close>

theorem acquisition_saved_iff_valid:
  assumes "env SentinelHubInputTask [] (args ''load Sentinel-1 data'') = Inr p_data"
    and "env PickIdxTask [p_data] (args ''pick closest observation to reference'') = Inr p_pick"
    and "env TDigestTask [p_pick] (args ''compute T-Digest'') = Inr pd"
    and "env SentinelHubEvalscriptTask [] (args ''load Sentinel-2 based reference'') = Inr p_ref"
    and "env JoinMasksTask [p_ref] (args ''merge reference masks to one'') = Inr pr"
    and "pd (MASK, ''dmask_data'') = Some (Array dmask_data)"
    and "pr (MASK_TIMELESS, ''reference'') = Some (Array reference)"
    and "pr (META_INFO, ''valid_data'') = None"
    and "prod_list (shape reference) < 2 ^ 52"
  shows "\<exists>patch evs.
     workflow_execute env args w = (Inr patch, w @ evs)
     \<and> patch (META_INFO, ''valid_data'')
         = Some (Flag (\<forall>e \<in> set (data dmask_data). e \<noteq> Val 0))
     \<and> patch (META_INFO, ''valid_reference'')
         = Some (Flag (prod_list (shape reference)
                        \<le> 20 * length (filter (\<lambda>e. e \<noteq> Val 0) (data reference))))
     \<and> patch (META_INFO, ''valid'')
         = Some (Flag ((\<forall>e \<in> set (data dmask_data). e \<noteq> Val 0)
                       \<and> prod_list (shape reference)
                           \<le> 20 * length (filter (\<lambda>e. e \<noteq> Val 0) (data reference))))
     \<and> ((\<exists>path folder. SavedPatch path folder \<in> set evs)
          \<longleftrightarrow> (\<forall>e \<in> set (data dmask_data). e \<noteq> Val 0)
              \<and> prod_list (shape reference)
                  \<le> 20 * length (filter (\<lambda>e. e \<noteq> Val 0) (data reference)))
     \<and> (\<forall>path folder. SavedPatch path folder \<in> set evs \<longrightarrow>
           path = ''dir_data'' \<and> folder = kwarg (args ''save valid EOPatch'') ''eopatch_folder'')"
proof -
  let ?vd = "checker_nodata dmask_data"
  let ?vr = "checker_waterdata reference"
  let ?patch = "(pd((META_INFO, ''valid_data'') \<mapsto> Flag ?vd)
             ++ pr((META_INFO, ''valid_reference'') \<mapsto> Flag ?vr))
           ((META_INFO, ''valid'') \<mapsto> Flag (zipper [Flag ?vd, Flag ?vr]))"
  let ?evs = "[Run ''load Sentinel-1 data'', Run ''pick closest observation to reference'',
           Run ''compute T-Digest'', Run ''check data for completeness'',
           Run ''load Sentinel-2 based reference'', Run ''merge reference masks to one'',
           Run ''check reference for completeness'', Run ''merge data and reference EOPatches'',
           Run ''zip checking criterions'', Run ''save valid EOPatch'']
        @ (if zipper [Flag ?vd, Flag ?vr]
           then [SavedPatch ''dir_data'' (kwarg (args ''save valid EOPatch'') ''eopatch_folder'')]
           else [])"
  have run: "workflow_execute env args w = (Inr ?patch, w @ ?evs)"
    using acquisition_unfold [OF assms(1-8)] by simp
  have vd: "?patch (META_INFO, ''valid_data'') = Some (Flag ?vd)"
    using assms(8) by (simp add: map_add_def)
  have vr: "?patch (META_INFO, ''valid_reference'') = Some (Flag ?vr)"
    by (simp add: map_add_def)
  have v: "?patch (META_INFO, ''valid'') = Some (Flag (?vd \<and> ?vr))"
    by (simp add: zipper_two)
  have saved: "(\<exists>path folder. SavedPatch path folder \<in> set ?evs) \<longleftrightarrow> ?vd \<and> ?vr"
    by (simp add: zipper_two)
  have "where": "\<forall>path folder. SavedPatch path folder \<in> set ?evs \<longrightarrow>
           path = ''dir_data'' \<and> folder = kwarg (args ''save valid EOPatch'') ''eopatch_folder''"
    by simp
  show ?thesis
    using run vd vr v saved "where"
    unfolding checker_nodata_iff checker_waterdata_iff [OF assms(9)] by blast
qed

theorem acquisition_saved_iff_valid_witness:
  "snd (workflow_execute
          (example_env \<lparr>shape = [1, 2, 1], data = [Val 1, Val 1]\<rparr>
                       \<lparr>shape = [5, 4, 1], data = Val 1 # replicate 19 (Val 0)\<rparr>)
          example_args [])
     = [Run ''load Sentinel-1 data'', Run ''pick closest observation to reference'',
        Run ''compute T-Digest'', Run ''check data for completeness'',
        Run ''load Sentinel-2 based reference'', Run ''merge reference masks to one'',
        Run ''check reference for completeness'', Run ''merge data and reference EOPatches'',
        Run ''zip checking criterions'', Run ''save valid EOPatch'',
        SavedPatch ''dir_data'' ''train/eopatch_0'']
   \<and> snd (workflow_execute
          (example_env \<lparr>shape = [1, 2, 1], data = [Val 1, Val 1]\<rparr>
                       \<lparr>shape = [7, 3, 1], data = Val 1 # replicate 20 (Val 0)\<rparr>)
          example_args [])
     = [Run ''load Sentinel-1 data'', Run ''pick closest observation to reference'',
        Run ''compute T-Digest'', Run ''check data for completeness'',
        Run ''load Sentinel-2 based reference'', Run ''merge reference masks to one'',
        Run ''check reference for completeness'', Run ''merge data and reference EOPatches'',
        Run ''zip checking criterions'', Run ''save valid EOPatch'']"
proof -
  let ?dm = "\<lparr>shape = [1, 2, 1], data = [Val 1, Val 1]\<rparr>"
  let ?r1 = "\<lparr>shape = [5, 4, 1], data = Val 1 # replicate 19 (Val 0)\<rparr>"
  let ?r2 = "\<lparr>shape = [7, 3, 1], data = Val 1 # replicate 20 (Val 0)\<rparr>"
  have a: "\<exists>patch evs.
     workflow_execute (example_env ?dm ?r1) example_args [] = (Inr patch, [] @ evs)
     \<and> patch (META_INFO, ''valid_data'') = Some (Flag (\<forall>e \<in> set (data ?dm). e \<noteq> Val 0))
     \<and> patch (META_INFO, ''valid_reference'')
         = Some (Flag (prod_list (shape ?r1) \<le> 20 * length (filter (\<lambda>e. e \<noteq> Val 0) (data ?r1))))
     \<and> patch (META_INFO, ''valid'')
         = Some (Flag ((\<forall>e \<in> set (data ?dm). e \<noteq> Val 0)
                       \<and> prod_list (shape ?r1) \<le> 20 * length (filter (\<lambda>e. e \<noteq> Val 0) (data ?r1))))
     \<and> ((\<exists>path folder. SavedPatch path folder \<in> set evs)
          \<longleftrightarrow> (\<forall>e \<in> set (data ?dm). e \<noteq> Val 0)
              \<and> prod_list (shape ?r1) \<le> 20 * length (filter (\<lambda>e. e \<noteq> Val 0) (data ?r1)))
     \<and> (\<forall>path folder. SavedPatch path folder \<in> set evs \<longrightarrow>
           path = ''dir_data'' \<and> folder = kwarg (example_args ''save valid EOPatch'') ''eopatch_folder'')"
    by (rule acquisition_saved_iff_valid
          [where env = "example_env ?dm ?r1" and args = example_args and w = "[]"
             and p_data = Map.empty and p_pick = Map.empty and p_ref = Map.empty
             and pd = "[(MASK, ''dmask_data'') \<mapsto> Array ?dm]"
             and pr = "[(MASK_TIMELESS, ''reference'') \<mapsto> Array ?r1]"
             and dmask_data = ?dm and reference = ?r1])
       (simp_all add: example_env_def)
  show ?thesis
    using a
    by (simp add: acquisition_defs SaveValidTask_execute_def example_env_def example_args_def
        kwarg_def map_add_def checker_nodata_iff checker_waterdata_iff zipper_def)
qed

subsection \<open>The showcase workflow\<close>





subsection \<open>The notebook sequences and the order of the nodes\<close>










subsection \<open>The workflow-argument loops\<close>










lemmas example_loop_defs = workflow_args_cell_def example_acquisition_env_def timestamp_step_def
  showcase_args_cell_def example_showcase_env_def Let_def



text \<open>
  When the interval query of the first showcase bounding box raises, the handler reads
  the unbound \<open>timeinterval\<close> and the cell ends with NameError.
\<close>

lemma showcase_first_query_raises_NameError:
  "showcase_args_cell
     (example_showcase_env (\<lambda>i. if i = 0 then Inl (Exception ''timeout'') else Inr (1, 2)))
     = Inl NameError"
  by (simp add: example_loop_defs eval_nat_numeral)

end
